theory Spec2Isabelle
  imports Complex_Main "HOL-Library.Sublist"
begin

section \<open>Python values\<close>

text \<open>
  A Python 3 \<^verbatim>\<open>str\<close> is a sequence of Unicode code points. It is modelled as a list of
  natural numbers, so that \<^verbatim>\<open>len\<close>, slicing and the whitespace tests count what Python
  counts. Literals of the source are written \<open>py ''...''\<close>.
\<close>

type_synonym codepoint = nat
type_synonym pystr = "codepoint list"

definition py :: "string \<Rightarrow> pystr" where
  "py s = map of_char s"

text \<open>
  Truthiness of an optional string (\<^verbatim>\<open>if x:\<close>, \<^verbatim>\<open>if not x:\<close>): \<^verbatim>\<open>None\<close> and the
  empty string are falsy, every other string is truthy.
\<close>

fun truthy :: "pystr option \<Rightarrow> bool" where
  "truthy None = False"
| "truthy (Some s) = (s \<noteq> [])"

text \<open>\<^verbatim>\<open>str(n)\<close> of a non-negative integer: its decimal digits.\<close>

fun str_nat :: "nat \<Rightarrow> pystr" where
  "str_nat n = (if n < 10 then [48 + n] else str_nat (n div 10) @ [48 + n mod 10])"

declare str_nat.simps [simp del]

text \<open>\<^verbatim>\<open>sep.join(xs)\<close>.\<close>

fun join :: "pystr \<Rightarrow> pystr list \<Rightarrow> pystr" where
  "join sep [] = []"
| "join sep [x] = x"
| "join sep (x # y # ys) = x @ sep @ join sep (y # ys)"

subsection \<open>Binary floating point\<close>

text \<open>
  Python's \<^verbatim>\<open>float\<close> is IEEE 754 binary64. A finite float is a rational number, and every
  arithmetic operation returns the exact result rounded to the nearest float, ties to
  the even significand. \<open>float64 x\<close> is that rounding of the exact value \<open>x\<close>: 53
  significant bits, the exponent bounded below as for subnormal numbers. Magnitudes of
  \<open>2 ^ 1024\<close> and above (where Python yields \<^verbatim>\<open>inf\<close> or raises \<^verbatim>\<open>OverflowError\<close>) are outside
  the model; the quantities computed below stay far from that range.
\<close>

definition rne :: "rat \<Rightarrow> int" where
  "rne x = (let f = \<lfloor>x\<rfloor>; d = x - of_int f
            in if d < 1 / 2 then f
               else if 1 / 2 < d then f + 1
               else if even f then f else f + 1)"

definition pow2 :: "int \<Rightarrow> rat" where
  "pow2 e = (if 0 \<le> e then 2 ^ nat e else 1 / 2 ^ nat (- e))"

function bit_length :: "int \<Rightarrow> int" where
  "bit_length n = (if n \<le> 0 then 0 else bit_length (n div 2) + 1)"
  by pat_completeness auto
termination
  by (relation "measure nat") auto

declare bit_length.simps [simp del]

text \<open>\<open>ilog2 x\<close> is the exponent \<open>e\<close> with \<open>2 ^ e \<le> x < 2 ^ (e + 1)\<close>, for \<open>x > 0\<close>.\<close>

definition ilog2 :: "rat \<Rightarrow> int" where
  "ilog2 x = (case quotient_of x of (a, b) \<Rightarrow>
     (let d = bit_length a - bit_length b
      in if pow2 d \<le> x then d else d - 1))"

definition float64 :: "rat \<Rightarrow> rat" where
  "float64 x = (if x = 0 then 0
     else (let e = max (ilog2 \<bar>x\<bar>) (- 1022); u = pow2 (e - 52)
           in of_int (rne (x / u)) * u))"

text \<open>
  \<^verbatim>\<open>round(x, 4)\<close> of a float: the exact value of \<open>x\<close> rounded to four decimals (ties to
  even), then the nearest float of that decimal.
\<close>

definition round4 :: "rat \<Rightarrow> rat" where
  "round4 x = float64 (of_int (rne (x * 10000)) / 10000)"

section \<open>ai\_analyzer.py: the cost estimate\<close>

record cost_breakdown =
  input_tokens :: int
  output_tokens :: int
  total_tokens :: int

record cost_estimate =
  estimated_tokens :: int
  estimated_cost_usd :: rat
  analysis_types :: "pystr list"
  cost_breakdown :: cost_breakdown

definition get_analysis_cost_estimate :: "pystr \<Rightarrow> pystr option \<Rightarrow> cost_estimate" where
  "get_analysis_cost_estimate resume_text target_role =
     (let resume_tokens = int (length resume_text) div 4;
          prompt_tokens = 1000;
          response_tokens = 1500;
          total = resume_tokens + prompt_tokens + response_tokens;
          cost_per_1k_tokens = float64 (2 / 1000);
          estimated_cost = float64 (float64 (of_int total / 1000) * cost_per_1k_tokens);
          types = [py ''Comprehensive Analysis'']
                  @ (if truthy target_role then [py ''Role-Specific Analysis''] else []);
          estimated_cost' = (if truthy target_role then float64 (estimated_cost * (3 / 2))
                             else estimated_cost)
      in \<lparr> estimated_tokens = total,
           estimated_cost_usd = round4 estimated_cost',
           analysis_types = types,
           cost_breakdown = \<lparr> input_tokens = resume_tokens + prompt_tokens,
                              output_tokens = response_tokens,
                              total_tokens = total \<rparr> \<rparr>)"

section \<open>Exceptions and reported events\<close>

text \<open>
  An exception value is its class and the text \<^verbatim>\<open>str(e)\<close>. The classes are subclasses
  of \<^verbatim>\<open>Exception\<close>: the three the source names from \<^verbatim>\<open>openai.error\<close>, the ones the
  modelled code raises itself, and \<open>OtherException\<close> for every other one.
\<close>

datatype exn_class =
  AuthenticationError | RateLimitError | APIError
  | IndexError | AttributeError | ZeroDivisionError | OtherException

datatype py_exn = Exn exn_class pystr

fun exn_str :: "py_exn \<Rightarrow> pystr" where
  "exn_str (Exn c s) = s"

fun exn_cls :: "py_exn \<Rightarrow> exn_class" where
  "exn_cls (Exn c s) = c"

text \<open>
  What a function reports besides its return value: the Streamlit calls
  \<^verbatim>\<open>st.success\<close>, \<^verbatim>\<open>st.warning\<close>, \<^verbatim>\<open>st.error\<close>, \<^verbatim>\<open>st.info\<close>, \<^verbatim>\<open>st.write\<close> and the
  \<^verbatim>\<open>logger\<close> calls, each with its text, in the order the code makes them.
\<close>

datatype ui_event =
  st_success pystr | st_warning pystr | st_error pystr | st_info pystr | st_write pystr
  | logger_error pystr | logger_warning pystr | logger_info pystr

section \<open>test.py: the score overview\<close>

text \<open>
  \<^verbatim>\<open>score_percentage = (total_score / max_score) * 100\<close>: a true division and a
  multiplication, each rounded to a float. The scores are finite numbers (integers or
  floats), given as rationals.
\<close>

definition score_percentage :: "rat \<Rightarrow> rat \<Rightarrow> rat" where
  "score_percentage total_score max_score = float64 (float64 (total_score / max_score) * 100)"

text \<open>
  The five outcomes of the second column: the status call with its label (an emoji,
  given by its code points, and the band's name) and the status line written below it.
\<close>

definition band_excellent :: "ui_event list" where
  "band_excellent = [st_success (127881 # py '' Excellent''), st_write (py ''Ready for applications'')]"

definition band_very_good :: "ui_event list" where
  "band_very_good = [st_success (9989 # py '' Very Good''), st_write (py ''Minor improvements beneficial'')]"

definition band_good :: "ui_event list" where
  "band_good = [st_warning (128295 # py '' Good''), st_write (py ''Some improvements needed'')]"

definition band_fair :: "ui_event list" where
  "band_fair = [st_warning (9888 # 65039 # py '' Fair''), st_write (py ''Significant improvements required'')]"

definition band_needs_work :: "ui_event list" where
  "band_needs_work = [st_error (10060 # py '' Needs Work''), st_write (py ''Major overhaul required'')]"

text \<open>
  \<^verbatim>\<open>display_score_overview\<close>, its second column (the first column's metric and the
  third column's recommendation do not depend on the band). A zero \<^verbatim>\<open>max_score\<close> makes
  the division raise.
\<close>

definition display_score_overview :: "rat \<Rightarrow> rat \<Rightarrow> py_exn + ui_event list" where
  "display_score_overview total_score max_score =
     (if max_score = 0 then Inl (Exn ZeroDivisionError (py ''division by zero''))
      else (let p = score_percentage total_score max_score
            in Inr (if 80 \<le> p then band_excellent
                    else if 70 \<le> p then band_very_good
                    else if 60 \<le> p then band_good
                    else if 45 \<le> p then band_fair
                    else band_needs_work)))"

section \<open>Properties of the number model\<close>

lemma pow2_pos: "0 < pow2 e"
  by (simp add: pow2_def)

lemma rne_nonneg: "0 \<le> x \<Longrightarrow> 0 \<le> rne x"
proof -
  assume "0 \<le> x"
  then have "0 \<le> \<lfloor>x\<rfloor>" by simp
  then show ?thesis by (simp add: rne_def Let_def)
qed

lemma float64_nonneg: "0 \<le> x \<Longrightarrow> 0 \<le> float64 x"
proof -
  assume x: "0 \<le> x"
  have step: "0 \<le> of_int (rne (x / u)) * u" if "0 < u" for u :: rat
  proof -
    have "0 \<le> x / u" using that x by simp
    then have "0 \<le> rne (x / u)" by (rule rne_nonneg)
    then show ?thesis using that by simp
  qed
  show ?thesis
    by (simp add: float64_def Let_def step [OF pow2_pos])
qed

lemma round4_nonneg: "0 \<le> x \<Longrightarrow> 0 \<le> round4 x"
  by (simp add: round4_def float64_nonneg rne_nonneg)

section \<open>Cost estimate\<close>

text \<open>
  C10. For every resume text and optional target role the token fields of the estimate
  are consistent and determined by the input: input + output = total = estimated tokens
  = \<open>len(resume_text) // 4 + 2500\<close>; the estimated cost is non-negative; the analysis
  types contain "Role-Specific Analysis" exactly when the target role is set (a
  non-empty string), and are the single "Comprehensive Analysis" otherwise.
\<close>

theorem cost_estimate_consistent:
  "input_tokens (cost_breakdown (get_analysis_cost_estimate resume_text target_role))
     + output_tokens (cost_breakdown (get_analysis_cost_estimate resume_text target_role))
     = total_tokens (cost_breakdown (get_analysis_cost_estimate resume_text target_role))
   \<and> total_tokens (cost_breakdown (get_analysis_cost_estimate resume_text target_role))
     = estimated_tokens (get_analysis_cost_estimate resume_text target_role)
   \<and> estimated_tokens (get_analysis_cost_estimate resume_text target_role)
     = int (length resume_text) div 4 + 2500
   \<and> 0 \<le> estimated_cost_usd (get_analysis_cost_estimate resume_text target_role)
   \<and> (py ''Role-Specific Analysis''
        \<in> set (analysis_types (get_analysis_cost_estimate resume_text target_role))
      \<longleftrightarrow> truthy target_role)
   \<and> analysis_types (get_analysis_cost_estimate resume_text target_role)
     = (if truthy target_role
        then [py ''Comprehensive Analysis'', py ''Role-Specific Analysis'']
        else [py ''Comprehensive Analysis''])"
proof -
  have ne: "py ''Role-Specific Analysis'' \<noteq> py ''Comprehensive Analysis''"
    by (simp add: py_def)
  have cost: "0 \<le> estimated_cost_usd (get_analysis_cost_estimate resume_text target_role)"
    by (simp add: get_analysis_cost_estimate_def Let_def round4_nonneg float64_nonneg)
  show ?thesis
    using ne cost by (simp add: get_analysis_cost_estimate_def Let_def)
qed

section \<open>Score bands\<close>

lemma bands_distinct:
  "band_excellent \<noteq> band_very_good" "band_excellent \<noteq> band_good"
  "band_excellent \<noteq> band_fair" "band_excellent \<noteq> band_needs_work"
  "band_very_good \<noteq> band_good" "band_very_good \<noteq> band_fair"
  "band_very_good \<noteq> band_needs_work" "band_good \<noteq> band_fair"
  "band_good \<noteq> band_needs_work" "band_fair \<noteq> band_needs_work"
  by (simp_all add: band_excellent_def band_very_good_def band_good_def band_fair_def
      band_needs_work_def)

text \<open>
  C1. For every total score and every maximum score above zero, the band shown by
  \<^verbatim>\<open>display_score_overview\<close> is fixed by the percentage and the constants 80, 70, 60 and
  45: "Excellent" exactly from 80 up, "Very Good" exactly from 70 up to below 80, "Good"
  exactly from 60 up to below 70, "Fair" exactly from 45 up to below 60, and "Needs
  Work" exactly below 45.
\<close>

theorem score_bands:
  assumes "0 < max_score"
  shows "(display_score_overview total_score max_score = Inr band_excellent
            \<longleftrightarrow> 80 \<le> score_percentage total_score max_score)
       \<and> (display_score_overview total_score max_score = Inr band_very_good
            \<longleftrightarrow> 70 \<le> score_percentage total_score max_score
                \<and> score_percentage total_score max_score < 80)
       \<and> (display_score_overview total_score max_score = Inr band_good
            \<longleftrightarrow> 60 \<le> score_percentage total_score max_score
                \<and> score_percentage total_score max_score < 70)
       \<and> (display_score_overview total_score max_score = Inr band_fair
            \<longleftrightarrow> 45 \<le> score_percentage total_score max_score
                \<and> score_percentage total_score max_score < 60)
       \<and> (display_score_overview total_score max_score = Inr band_needs_work
            \<longleftrightarrow> score_percentage total_score max_score < 45)"
proof -
  from assms have nz: "max_score \<noteq> 0" by simp
  show ?thesis
    unfolding display_score_overview_def Let_def
    using nz bands_distinct by (auto simp: not_le)
qed

text \<open>
  The boundary values: 44.9 is "Needs Work" and 45 is "Fair"; 59.9 is "Fair" and 60 is
  "Good"; 69.9 is "Good" and 70 is "Very Good"; 79.9 is "Very Good" and 80 is
  "Excellent" (scores out of 100, the decimals as the floats nearest to them).
\<close>

theorem score_bands_witness:
  "(0::rat) < 100
   \<and> display_score_overview (float64 (449 / 10)) 100 = Inr band_needs_work
   \<and> display_score_overview 45 100 = Inr band_fair
   \<and> display_score_overview (float64 (599 / 10)) 100 = Inr band_fair
   \<and> display_score_overview 60 100 = Inr band_good
   \<and> display_score_overview (float64 (699 / 10)) 100 = Inr band_good
   \<and> display_score_overview 70 100 = Inr band_very_good
   \<and> display_score_overview (float64 (799 / 10)) 100 = Inr band_very_good
   \<and> display_score_overview 80 100 = Inr band_excellent"
proof -
  have pos: "(0::rat) < 100" by simp
  have p1: "score_percentage (float64 (449 / 10)) 100 < 45" by code_simp
  have p2: "45 \<le> score_percentage 45 100" "score_percentage 45 100 < 60" by code_simp+
  have p3: "45 \<le> score_percentage (float64 (599 / 10)) 100"
    "score_percentage (float64 (599 / 10)) 100 < 60" by code_simp+
  have p4: "60 \<le> score_percentage 60 100" "score_percentage 60 100 < 70" by code_simp+
  have p5: "60 \<le> score_percentage (float64 (699 / 10)) 100"
    "score_percentage (float64 (699 / 10)) 100 < 70" by code_simp+
  have p6: "70 \<le> score_percentage 70 100" "score_percentage 70 100 < 80" by code_simp+
  have p7: "70 \<le> score_percentage (float64 (799 / 10)) 100"
    "score_percentage (float64 (799 / 10)) 100 < 80" by code_simp+
  have p8: "80 \<le> score_percentage 80 100" by code_simp
  have c1: "display_score_overview (float64 (449 / 10)) 100 = Inr band_needs_work"
    using score_bands [OF pos, of "float64 (449 / 10)"] p1 by blast
  have c2: "display_score_overview 45 100 = Inr band_fair"
    using score_bands [OF pos, of 45] p2 by blast
  have c3: "display_score_overview (float64 (599 / 10)) 100 = Inr band_fair"
    using score_bands [OF pos, of "float64 (599 / 10)"] p3 by blast
  have c4: "display_score_overview 60 100 = Inr band_good"
    using score_bands [OF pos, of 60] p4 by blast
  have c5: "display_score_overview (float64 (699 / 10)) 100 = Inr band_good"
    using score_bands [OF pos, of "float64 (699 / 10)"] p5 by blast
  have c6: "display_score_overview 70 100 = Inr band_very_good"
    using score_bands [OF pos, of 70] p6 by blast
  have c7: "display_score_overview (float64 (799 / 10)) 100 = Inr band_very_good"
    using score_bands [OF pos, of "float64 (799 / 10)"] p7 by blast
  have c8: "display_score_overview 80 100 = Inr band_excellent"
    using score_bands [OF pos, of 80] p8 by blast
  from pos c1 c2 c3 c4 c5 c6 c7 c8 show ?thesis
    by (intro conjI)
qed

end
